theory Spec2Isabelle
  imports Complex_Main "HOL-Library.Sublist"
begin

section \<open>Python strings\<close>

text \<open>
  \<open>s.startswith(p)\<close> is \<open>prefix p s\<close>. The substring test \<open>needle in hay\<close> is computed
  by \<open>str_contains\<close>, which tries every position of \<open>hay\<close> from the left.
\<close>

definition startswith :: "string \<Rightarrow> string \<Rightarrow> bool" where
  "startswith s p = prefix p s"

fun str_contains :: "string \<Rightarrow> string \<Rightarrow> bool" where
  "str_contains needle [] = (needle = [])"
| "str_contains needle (c # cs) = (prefix needle (c # cs) \<or> str_contains needle cs)"

text \<open>
  Strings are lists of bytes, so the models below are those of ASCII text: \<open>lower\<close>
  maps the letters A-Z, and a byte above 127 is neither a letter nor a word character.
\<close>

definition lower_char :: "char \<Rightarrow> char" where
  "lower_char c =
     (case map_of (zip ''ABCDEFGHIJKLMNOPQRSTUVWXYZ'' ''abcdefghijklmnopqrstuvwxyz'') c of
        Some l \<Rightarrow> l
      | None \<Rightarrow> c)"

definition ascii_alpha :: "char \<Rightarrow> bool" where
  "ascii_alpha c = (c \<in> set ''abcdefghijklmnopqrstuvwxyzABCDEFGHIJKLMNOPQRSTUVWXYZ'')"

text \<open>\<open>s.split(sep)\<close> for a one-character separator, and \<open>sep.join(parts)\<close>.\<close>

fun split_from :: "char \<Rightarrow> string \<Rightarrow> string \<Rightarrow> string list" where
  "split_from sep piece [] = [piece]"
| "split_from sep piece (c # cs) =
     (if c = sep then piece # split_from sep [] cs else split_from sep (piece @ [c]) cs)"

definition str_split :: "string \<Rightarrow> char \<Rightarrow> string list" where
  "str_split s sep = split_from sep [] s"

fun str_join :: "string \<Rightarrow> string list \<Rightarrow> string" where
  "str_join sep [] = []"
| "str_join sep [x] = x"
| "str_join sep (x # y # rest) = x @ sep @ str_join sep (y # rest)"

text \<open>Exceptions carry their message, which is what \<open>str(e)\<close> returns.\<close>

datatype py_error = IndexError string | ValueError string

fun str_of_error :: "py_error \<Rightarrow> string" where
  "str_of_error (IndexError msg) = msg"
| "str_of_error (ValueError msg) = msg"

text \<open>Decimal rendering of a non-negative integer, as an f-string does it.\<close>

definition digit_char :: "nat \<Rightarrow> char" where
  "digit_char d = ''0123456789'' ! (d mod 10)"

function str_nat :: "nat \<Rightarrow> string" where
  "str_nat n = (if n < 10 then [digit_char n] else str_nat (n div 10) @ [digit_char (n mod 10)])"
  by pat_completeness auto
termination
  by (relation "measure id") auto

declare str_nat.simps [simp del]

section \<open>Performance analyzer (analyzers/performance_analyzer.py)\<close>

text \<open>
  Load times are Python floats. They are only compared with the literals 1.0, 2.5, 3.0,
  4.0 and 6.0, all of which are exact binary fractions, so a load time is modelled by
  the real number it denotes and a comparison by the comparison of reals.
\<close>

record load_time_report =
  load_time_seconds :: real
  load_time_acceptable :: bool
  performance_score :: real

definition calculate_performance_score :: "real \<Rightarrow> real" where
  "calculate_performance_score load_time =
     (if load_time \<le> 1.0 then 1.0
      else if load_time \<le> 2.5 then 0.8
      else if load_time \<le> 4.0 then 0.6
      else if load_time \<le> 6.0 then 0.4
      else 0.2)"

definition analyze_load_time :: "real \<Rightarrow> load_time_report" where
  "analyze_load_time load_time =
     \<lparr> load_time_seconds = load_time,
       load_time_acceptable = (load_time < 3.0),
       performance_score = calculate_performance_score load_time \<rparr>"

section \<open>SEO analyzer (analyzers/seo_analyzer.py)\<close>

subsection \<open>Heading structure\<close>

text \<open>
  \<open>analyze_headings\<close> builds the dictionary \<open>headings\<close> with the six keys \<open>h1\<close> .. \<open>h6\<close>,
  each bound to the number of tags of that name, and hands it to
  \<open>_check_heading_structure\<close>, its only caller. The dictionary is a function from the
  key to the count; \<open>hkey i\<close> is the key \<open>f'h{i}'\<close>.
\<close>

type_synonym headings = "string \<Rightarrow> nat"

definition hkey :: "nat \<Rightarrow> string" where
  "hkey i = ''h'' @ str_nat i"

text \<open>
  The loop \<open>for i in range(2, 7)\<close> with its two variables \<open>last_level\<close> and \<open>issues\<close>.
\<close>

fun skipped_levels :: "headings \<Rightarrow> nat list \<Rightarrow> nat \<Rightarrow> string list \<Rightarrow> string list" where
  "skipped_levels headings [] last_level issues = issues"
| "skipped_levels headings (i # rest) last_level issues =
     (let issues' =
            (if headings (hkey i) > 0 \<and> headings (hkey last_level) = 0
             then issues @ [''Skipped heading level: h'' @ str_nat last_level
                              @ '' to h'' @ str_nat i]
             else issues);
          last_level' = (if headings (hkey i) > 0 then i else last_level)
      in skipped_levels headings rest last_level' issues')"

definition check_heading_structure :: "headings \<Rightarrow> string list" where
  "check_heading_structure headings =
     (let issues =
            (if headings ''h1'' = 0 then [''Missing H1 tag'']
             else if headings ''h1'' > 1 then [''Multiple H1 tags'']
             else [])
      in skipped_levels headings [2, 3, 4, 5, 6] 1 issues)"

subsection \<open>Link census\<close>

text \<open>
  \<open>soup.find_all('a', href=True)\<close> is the list of the anchors that carry an \<open>href\<close>
  attribute; only the attribute is read, so the list of the \<open>href\<close> values stands for it.
\<close>

record link_census =
  total_links :: nat
  internal_links :: nat
  external_links :: nat
  broken_links :: "string list"

fun classify_links ::
  "string \<Rightarrow> string list \<Rightarrow> string list \<times> string list \<Rightarrow> string list \<times> string list" where
  "classify_links current_url [] (internal, external) = (internal, external)"
| "classify_links current_url (href # rest) (internal, external) =
     (if startswith href ''#'' \<or> href = [] then
        classify_links current_url rest (internal, external)
      else if startswith href ''http'' \<and> \<not> str_contains current_url href then
        classify_links current_url rest (internal, external @ [href])
      else
        classify_links current_url rest (internal @ [href], external))"

definition analyze_links :: "string list \<Rightarrow> string \<Rightarrow> link_census" where
  "analyze_links links current_url =
     (case classify_links current_url links ([], []) of
        (internal, external) \<Rightarrow>
          \<lparr> total_links = length links,
            internal_links = length internal,
            external_links = length external,
            broken_links = [] \<rparr>)"

section \<open>Content analyzer (analyzers/content_analyzer.py)\<close>

subsection \<open>Sentences, words, syllables\<close>

text \<open>
  \<open>re.split(r'[.!?]+', text)\<close>: the text is cut at every maximal run of the characters
  \<open>.\<close>, \<open>!\<close> and \<open>?\<close>; the pieces before the first run and after the last one are part
  of the result also when they are empty.
\<close>

definition sentence_end :: "char \<Rightarrow> bool" where
  "sentence_end c = (c \<in> set ''.!?'')"

function split_sentences_from :: "string \<Rightarrow> string \<Rightarrow> string list" where
  "split_sentences_from piece [] = [piece]"
| "split_sentences_from piece (c # cs) =
     (if sentence_end c then piece # split_sentences_from [] (dropWhile sentence_end cs)
      else split_sentences_from (piece @ [c]) cs)"
  by pat_completeness auto
termination
  by (relation "measure (\<lambda>(piece, rest). length rest)")
     (auto simp: less_Suc_eq_le length_dropWhile_le)

definition split_into_sentences :: "string \<Rightarrow> string list" where
  "split_into_sentences text = split_sentences_from [] text"

text \<open>
  \<open>re.findall(r'\b\w+\b', text)\<close>: the maximal runs of word characters, from left to
  right.
\<close>

definition word_char :: "char \<Rightarrow> bool" where
  "word_char c =
     (c \<in> set ''abcdefghijklmnopqrstuvwxyzABCDEFGHIJKLMNOPQRSTUVWXYZ0123456789_'')"

function split_into_words :: "string \<Rightarrow> string list" where
  "split_into_words [] = []"
| "split_into_words (c # cs) =
     (if word_char c
      then (c # takeWhile word_char cs) # split_into_words (dropWhile word_char cs)
      else split_into_words cs)"
  by pat_completeness auto
termination
  by (relation "measure length") (auto simp: less_Suc_eq_le length_dropWhile_le)

definition is_vowel :: "char \<Rightarrow> bool" where
  "is_vowel c = (c \<in> set ''aeiouy'')"

text \<open>
  The loop \<open>for index in range(1, len(word))\<close> of \<open>_count_syllables\<close>: \<open>prev\<close> is
  \<open>word[index - 1]\<close>.
\<close>

fun vowel_starts :: "char \<Rightarrow> string \<Rightarrow> int" where
  "vowel_starts prev [] = 0"
| "vowel_starts prev (c # cs) =
     (if is_vowel c \<and> \<not> is_vowel prev then 1 else 0) + vowel_starts c cs"

text \<open>\<open>word[0]\<close> raises IndexError on the empty word.\<close>

definition count_syllables :: "string \<Rightarrow> py_error + int" where
  "count_syllables word0 =
     (case map lower_char word0 of
        [] \<Rightarrow> Inl (IndexError ''string index out of range'')
      | c # cs \<Rightarrow>
          (let count = (if is_vowel c then 1 else 0) + vowel_starts c cs;
               count = (if suffix ''e'' (c # cs) then count - 1 else count);
               count = (if count = 0 then 1 else count)
           in Inr count))"

text \<open>\<open>sum(self._count_syllables(word) for word in words)\<close>.\<close>

fun sum_syllables :: "string list \<Rightarrow> py_error + int" where
  "sum_syllables [] = Inr 0"
| "sum_syllables (w # ws) =
     (case count_syllables w of
        Inl e \<Rightarrow> Inl e
      | Inr n \<Rightarrow> (case sum_syllables ws of Inl e \<Rightarrow> Inl e | Inr m \<Rightarrow> Inr (n + m)))"

subsection \<open>Readability\<close>

text \<open>
  The score is computed in Python floats. The model computes it in the reals, that is
  without the rounding errors of the float operations, and takes \<open>round(x, 2)\<close> as the
  parameter \<open>round2\<close>: what the rounding returns depends on those errors.
\<close>

record readability =
  flesch_reading_ease :: real
  avg_sentence_length :: real
  avg_syllables_per_word :: real
  readability_level :: string

definition get_readability_level :: "real \<Rightarrow> string" where
  "get_readability_level flesch_score =
     (if flesch_score \<ge> 90 then ''Very Easy''
      else if flesch_score \<ge> 80 then ''Easy''
      else if flesch_score \<ge> 70 then ''Fairly Easy''
      else if flesch_score \<ge> 60 then ''Standard''
      else if flesch_score \<ge> 50 then ''Fairly Difficult''
      else if flesch_score \<ge> 30 then ''Difficult''
      else ''Very Difficult'')"

definition analyze_readability :: "(real \<Rightarrow> real) \<Rightarrow> string \<Rightarrow> py_error + readability" where
  "analyze_readability round2 text =
     (let sentences = split_into_sentences text;
          words = split_into_words text
      in case sum_syllables words of
           Inl e \<Rightarrow> Inl e
         | Inr syllables \<Rightarrow>
             (let asl = (if sentences \<noteq> [] then real (length words) / real (length sentences)
                         else 0);
                  aspw = (if words \<noteq> [] then real_of_int syllables / real (length words)
                          else 0);
                  flesch_score = 206.835 - 1.015 * asl - 84.6 * aspw
              in Inr \<lparr> flesch_reading_ease = round2 flesch_score,
                       avg_sentence_length = round2 asl,
                       avg_syllables_per_word = round2 aspw,
                       readability_level = get_readability_level flesch_score \<rparr>))"

section \<open>URL handling of the standard library (\<open>urllib.parse\<close>)\<close>

text \<open>
  The crawler resolves links with \<open>urljoin\<close> and compares hosts with \<open>urlparse\<close>. Both
  are functions of CPython's \<open>urllib/parse.py\<close>, and the definitions below follow that
  file function by function, for \<open>str\<close> arguments and \<open>allow_fragments=True\<close>. Two parts
  of it are not modelled: \<open>_checknetloc\<close>, which only acts on a host with non-ASCII
  characters, and the validation of a host in square brackets, which the library
  delegates to \<open>ipaddress\<close>. The latter is the parameter \<open>bracket_check\<close>: it returns the
  message of the ValueError that \<open>_check_bracketed_host\<close> raises, or \<open>None\<close>.
\<close>

definition c0_control_or_space :: "char \<Rightarrow> bool" where
  "c0_control_or_space c = ((of_char c :: nat) \<le> 32)"

definition unsafe_url_byte :: "char \<Rightarrow> bool" where
  "unsafe_url_byte c = ((of_char c :: nat) \<in> {9, 13, 10})"

definition scheme_chars :: string where
  "scheme_chars = ''abcdefghijklmnopqrstuvwxyzABCDEFGHIJKLMNOPQRSTUVWXYZ0123456789+-.''"

definition uses_relative :: "string list" where
  "uses_relative = ['''', ''ftp'', ''http'', ''gopher'', ''nntp'', ''imap'',
                    ''wais'', ''file'', ''https'', ''shttp'', ''mms'',
                    ''prospero'', ''rtsp'', ''rtsps'', ''rtspu'', ''sftp'',
                    ''svn'', ''svn+ssh'', ''ws'', ''wss'']"

definition uses_netloc :: "string list" where
  "uses_netloc = ['''', ''ftp'', ''http'', ''gopher'', ''nntp'', ''telnet'',
                  ''imap'', ''wais'', ''file'', ''mms'', ''https'', ''shttp'',
                  ''snews'', ''prospero'', ''rtsp'', ''rtsps'', ''rtspu'', ''rsync'',
                  ''svn'', ''svn+ssh'', ''sftp'', ''nfs'', ''git'', ''git+ssh'',
                  ''ws'', ''wss'']"

definition uses_params :: "string list" where
  "uses_params = ['''', ''ftp'', ''hdl'', ''prospero'', ''http'', ''imap'',
                  ''https'', ''shttp'', ''rtsp'', ''rtsps'', ''rtspu'', ''sip'',
                  ''sips'', ''mms'', ''sftp'', ''tel'']"

record split_result =
  sr_scheme :: string
  sr_netloc :: string
  sr_path :: string
  sr_query :: string
  sr_fragment :: string

record parse_result =
  pr_scheme :: string
  pr_netloc :: string
  pr_path :: string
  pr_params :: string
  pr_query :: string
  pr_fragment :: string

text \<open>\<open>s.strip(chars)\<close> for the set of characters \<open>c0_control_or_space\<close>.\<close>

definition strip_c0 :: "string \<Rightarrow> string" where
  "strip_c0 s = rev (dropWhile c0_control_or_space (rev (dropWhile c0_control_or_space s)))"

text \<open>\<open>_splitnetloc(url, 2)\<close>, applied to the text after the two slashes.\<close>

definition splitnetloc :: "string \<Rightarrow> string \<times> string" where
  "splitnetloc rest =
     (takeWhile (\<lambda>c. c \<notin> set ''/?#'') rest, dropWhile (\<lambda>c. c \<notin> set ''/?#'') rest)"

text \<open>\<open>s.split(sep, 1)\<close> for a string that contains the separator.\<close>

definition split_once :: "char \<Rightarrow> string \<Rightarrow> string \<times> string" where
  "split_once sep s = (takeWhile (\<lambda>c. c \<noteq> sep) s, drop 1 (dropWhile (\<lambda>c. c \<noteq> sep) s))"

text \<open>\<open>netloc.partition('[')[2].partition(']')[0]\<close>.\<close>

definition bracketed_host :: "string \<Rightarrow> string" where
  "bracketed_host netloc =
     takeWhile (\<lambda>c. c \<noteq> CHR '']'') (drop 1 (dropWhile (\<lambda>c. c \<noteq> CHR ''['') netloc))"

definition urlsplit ::
  "(string \<Rightarrow> string option) \<Rightarrow> string \<Rightarrow> string \<Rightarrow> py_error + split_result" where
  "urlsplit bracket_check url0 scheme0 =
     (let url = filter (\<lambda>c. \<not> unsafe_url_byte c) (dropWhile c0_control_or_space url0);
          scheme = filter (\<lambda>c. \<not> unsafe_url_byte c) (strip_c0 scheme0);
          head = takeWhile (\<lambda>c. c \<noteq> CHR '':'') url;
          (scheme, url) =
            (if CHR '':'' \<in> set url \<and> head \<noteq> [] \<and> list_all ascii_alpha (take 1 url)
                \<and> list_all (\<lambda>c. c \<in> set scheme_chars) head
             then (map lower_char head, drop (length head + 1) url)
             else (scheme, url));
          (netloc, url) = (if take 2 url = ''//'' then splitnetloc (drop 2 url) else ([], url))
      in if (CHR ''['' \<in> set netloc \<and> CHR '']'' \<notin> set netloc)
            \<or> (CHR '']'' \<in> set netloc \<and> CHR ''['' \<notin> set netloc)
         then Inl (ValueError ''Invalid IPv6 URL'')
         else
           (case (if CHR ''['' \<in> set netloc \<and> CHR '']'' \<in> set netloc
                  then bracket_check (bracketed_host netloc) else None) of
              Some msg \<Rightarrow> Inl (ValueError msg)
            | None \<Rightarrow>
                (let (url, fragment) =
                       (if CHR ''#'' \<in> set url then split_once CHR ''#'' url else (url, []));
                     (url, query) =
                       (if CHR ''?'' \<in> set url then split_once CHR ''?'' url else (url, []))
                 in Inr \<lparr> sr_scheme = scheme, sr_netloc = netloc, sr_path = url,
                          sr_query = query, sr_fragment = fragment \<rparr>)))"

text \<open>
  \<open>_splitparams\<close>: the parameters start at the first \<open>;\<close> of the last path segment. It is
  called only when the path contains a \<open>;\<close>.
\<close>

definition splitparams :: "string \<Rightarrow> string \<times> string" where
  "splitparams url =
     (let last_seg = rev (takeWhile (\<lambda>c. c \<noteq> CHR ''/'') (rev url));
          dir = take (length url - length last_seg) url
      in if CHR ''/'' \<in> set url \<and> CHR '';'' \<notin> set last_seg then (url, [])
         else (dir @ takeWhile (\<lambda>c. c \<noteq> CHR '';'') last_seg,
               drop 1 (dropWhile (\<lambda>c. c \<noteq> CHR '';'') last_seg)))"

definition urlparse ::
  "(string \<Rightarrow> string option) \<Rightarrow> string \<Rightarrow> string \<Rightarrow> py_error + parse_result" where
  "urlparse bracket_check url scheme =
     (case urlsplit bracket_check url scheme of
        Inl e \<Rightarrow> Inl e
      | Inr s \<Rightarrow>
          (let (path, params) =
                 (if sr_scheme s \<in> set uses_params \<and> CHR '';'' \<in> set (sr_path s)
                  then splitparams (sr_path s) else (sr_path s, []))
           in Inr \<lparr> pr_scheme = sr_scheme s, pr_netloc = sr_netloc s, pr_path = path,
                    pr_params = params, pr_query = sr_query s,
                    pr_fragment = sr_fragment s \<rparr>))"

definition urlunsplit :: "string \<Rightarrow> string \<Rightarrow> string \<Rightarrow> string \<Rightarrow> string \<Rightarrow> string" where
  "urlunsplit scheme netloc url0 query fragment =
     (let url = (if netloc \<noteq> [] \<or> (scheme \<noteq> [] \<and> scheme \<in> set uses_netloc)
                    \<or> take 2 url0 = ''//''
                 then ''//'' @ netloc
                        @ (if url0 \<noteq> [] \<and> take 1 url0 \<noteq> ''/'' then ''/'' @ url0 else url0)
                 else url0);
          url = (if scheme \<noteq> [] then scheme @ '':'' @ url else url);
          url = (if query \<noteq> [] then url @ ''?'' @ query else url);
          url = (if fragment \<noteq> [] then url @ ''#'' @ fragment else url)
      in url)"

definition urlunparse :: "parse_result \<Rightarrow> string" where
  "urlunparse p =
     urlunsplit (pr_scheme p) (pr_netloc p)
       (if pr_params p \<noteq> [] then pr_path p @ '';'' @ pr_params p else pr_path p)
       (pr_query p) (pr_fragment p)"

text \<open>
  The loop of \<open>urljoin\<close> over the path segments; \<open>resolved_path.pop()\<close> on the empty
  list is ignored there, as \<open>butlast\<close> does.
\<close>

fun resolve_segments :: "string list \<Rightarrow> string list \<Rightarrow> string list" where
  "resolve_segments resolved [] = resolved"
| "resolve_segments resolved (seg # rest) =
     (if seg = ''..'' then resolve_segments (butlast resolved) rest
      else if seg = ''.'' then resolve_segments resolved rest
      else resolve_segments (resolved @ [seg]) rest)"

text \<open>\<open>segments[1:-1] = filter(None, segments[1:-1])\<close>.\<close>

definition drop_empty_middle :: "string list \<Rightarrow> string list" where
  "drop_empty_middle segments =
     (if length segments < 2 then segments
      else take 1 segments @ filter (\<lambda>s. s \<noteq> []) (butlast (drop 1 segments))
             @ drop (length segments - 1) segments)"

definition urljoin :: "(string \<Rightarrow> string option) \<Rightarrow> string \<Rightarrow> string \<Rightarrow> py_error + string" where
  "urljoin bracket_check base url =
     (if base = [] then Inr url
      else if url = [] then Inr base
      else
        (case urlparse bracket_check base [] of
           Inl e \<Rightarrow> Inl e
         | Inr b \<Rightarrow>
             (case urlparse bracket_check url (pr_scheme b) of
                Inl e \<Rightarrow> Inl e
              | Inr u \<Rightarrow>
                  if pr_scheme u \<noteq> pr_scheme b \<or> pr_scheme u \<notin> set uses_relative
                  then Inr url
                  else if pr_scheme u \<in> set uses_netloc \<and> pr_netloc u \<noteq> []
                  then Inr (urlunparse u)
                  else
                    (let netloc = (if pr_scheme u \<in> set uses_netloc then pr_netloc b
                                   else pr_netloc u)
                     in if pr_path u = [] \<and> pr_params u = [] then
                          Inr (urlunparse
                                 (u\<lparr> pr_netloc := netloc, pr_path := pr_path b,
                                     pr_params := pr_params b,
                                     pr_query := (if pr_query u = [] then pr_query b
                                                  else pr_query u) \<rparr>))
                        else
                          (let base_parts0 = str_split (pr_path b) CHR ''/'';
                               base_parts =
                                 (if drop (length base_parts0 - 1) base_parts0 \<noteq> [[]]
                                  then butlast base_parts0 else base_parts0);
                               segments =
                                 (if take 1 (pr_path u) = ''/''
                                  then str_split (pr_path u) CHR ''/''
                                  else drop_empty_middle
                                         (base_parts @ str_split (pr_path u) CHR ''/''));
                               resolved_path = resolve_segments [] segments;
                               resolved_path =
                                 (if drop (length segments - 1) segments = [''.'']
                                     \<or> drop (length segments - 1) segments = [''..'']
                                  then resolved_path @ [[]] else resolved_path);
                               joined = str_join ''/'' resolved_path
                           in Inr (urlunparse
                                     (u\<lparr> pr_netloc := netloc,
                                         pr_path := (if joined = [] then ''/''
                                                     else joined) \<rparr>)))))))"

section \<open>Robots gate (utils/robots_parser.py)\<close>

subsection \<open>The parser of the standard library (\<open>urllib.robotparser\<close>)\<close>

text \<open>
  \<open>RobotFileParser\<close> is a class of CPython's \<open>urllib/robotparser.py\<close>. The model follows
  its constructor, \<open>set_url\<close>, \<open>read\<close> and \<open>can_fetch\<close> down to the test of
  \<open>last_checked\<close>. Two parts of the library are parameters:
  \<^item> \<open>urlopen\<close>, what the request for robots.txt yields: an exception that \<open>read\<close> does
    not handle (\<open>Raises\<close>, with its message; a \<open>URLError\<close>, a time-out, a body that does not
    decode), an \<open>HTTPError\<close> with its status code, or the body parsed into its entries
    \<open>'p\<close> (\<open>Parsed\<close>; \<open>parse\<close> calls \<open>modified\<close>, which sets \<open>last_checked\<close>);
  \<^item> \<open>entries_allow\<close>, the rest of \<open>can_fetch\<close>: the search through the entries for the
    agent and the URL, which returns the allowance or raises.
  \<open>last_checked\<close> is a time, 0 until \<open>modified\<close> is called; the field of the model says
  whether it is non-zero.
\<close>

datatype 'p urlopen_outcome = Raises string | HTTPError int | Parsed 'p

record 'p robot_file_parser =
  disallow_all :: bool
  allow_all :: bool
  last_checked :: bool
  entries :: "'p option"

record 'p robots_library =
  urlopen :: "string \<Rightarrow> 'p urlopen_outcome"
  entries_allow :: "'p option \<Rightarrow> string \<Rightarrow> string \<Rightarrow> string + bool"
  host_check :: "string \<Rightarrow> string option"

text \<open>\<open>RobotFileParser()\<close>.\<close>

definition new_parser :: "'p robot_file_parser" where
  "new_parser = \<lparr> disallow_all = False, allow_all = False, last_checked = False,
                   entries = None \<rparr>"

text \<open>
  \<open>read\<close>: an \<open>HTTPError\<close> is caught. The codes 401 and 403 set \<open>disallow_all\<close>, the other
  codes from 400 to 499 set \<open>allow_all\<close>, and any other code changes nothing.
\<close>

definition parser_read ::
  "'p robots_library \<Rightarrow> string \<Rightarrow> 'p robot_file_parser \<Rightarrow> string + 'p robot_file_parser" where
  "parser_read lib url p =
     (case urlopen lib url of
        Raises msg \<Rightarrow> Inl msg
      | HTTPError code \<Rightarrow>
          Inr (if code = 401 \<or> code = 403 then p\<lparr> disallow_all := True \<rparr>
               else if 400 \<le> code \<and> code < 500 then p\<lparr> allow_all := True \<rparr>
               else p)
      | Parsed e \<Rightarrow> Inr (p\<lparr> last_checked := True, entries := Some e \<rparr>))"

text \<open>
  \<open>can_fetch\<close> of the library: until robots.txt has been read, no URL is allowable.
\<close>

definition parser_can_fetch ::
  "'p robots_library \<Rightarrow> 'p robot_file_parser \<Rightarrow> string \<Rightarrow> string \<Rightarrow> string + bool" where
  "parser_can_fetch lib p useragent url =
     (if disallow_all p then Inr False
      else if allow_all p then Inr True
      else if \<not> last_checked p then Inr False
      else entries_allow lib (entries p) useragent url)"

subsection \<open>The gate\<close>

text \<open>
  The state of a \<open>RobotsParser\<close> is its field \<open>parser\<close>, set to a new \<open>RobotFileParser\<close>
  by the constructor. \<open>initialize_parser\<close> returns that field: \<open>None\<close> when \<open>urljoin\<close>,
  \<open>set_url\<close> (which parses the URL) or \<open>read\<close> raised, and the parser as \<open>read\<close> left it
  otherwise.
\<close>

definition initialize_parser :: "'p robots_library \<Rightarrow> string \<Rightarrow> 'p robot_file_parser option" where
  "initialize_parser lib base_url =
     (case urljoin (host_check lib) base_url ''/robots.txt'' of
        Inl e \<Rightarrow> None
      | Inr robots_url \<Rightarrow>
          (case urlparse (host_check lib) robots_url [] of
             Inl e \<Rightarrow> None
           | Inr parts \<Rightarrow>
               (case parser_read lib robots_url new_parser of
                  Inl msg \<Rightarrow> None
                | Inr p \<Rightarrow> Some p)))"

text \<open>The result is \<open>Inr\<close> of the returned boolean, \<open>Inl\<close> of an exception that escapes.\<close>

definition can_fetch ::
  "'p robots_library \<Rightarrow> 'p robot_file_parser option \<Rightarrow> string \<Rightarrow> string \<Rightarrow> string + bool" where
  "can_fetch lib parser url user_agent =
     (case parser of
        None \<Rightarrow> Inr True
      | Some p \<Rightarrow>
          (case parser_can_fetch lib p user_agent url of
             Inl e \<Rightarrow> Inr True
           | Inr allowed \<Rightarrow> Inr allowed))"

section \<open>Link extraction of the crawler (seo_crawler.py)\<close>

text \<open>
  \<open>validators.url\<close> belongs to a third-party package. The crawler only tests its result
  for truth, so it is the parameter \<open>validators_url\<close> of the model, next to
  \<open>bracket_check\<close>.
\<close>

record url_library =
  validators_url :: "string \<Rightarrow> bool"
  bracket_check :: "string \<Rightarrow> string option"

definition is_valid_url :: "url_library \<Rightarrow> string \<Rightarrow> string \<Rightarrow> py_error + bool" where
  "is_valid_url lib base_url url =
     (if \<not> validators_url lib url then Inr False
      else
        (case urlparse (bracket_check lib) url [] of
           Inl e \<Rightarrow> Inl e
         | Inr u \<Rightarrow>
             (case urlparse (bracket_check lib) base_url [] of
                Inl e \<Rightarrow> Inl e
              | Inr b \<Rightarrow> Inr (pr_netloc u = pr_netloc b))))"

text \<open>
  \<open>soup.find_all('a', href=True)\<close> is the list of the anchors with an \<open>href\<close> attribute,
  in document order; the loop reads nothing but that attribute, so \<open>extract_links\<close>
  takes the list of the \<open>href\<close> values. An exception of \<open>urljoin\<close> or \<open>urlparse\<close> ends the
  loop and is the result.
\<close>

fun extract_links :: "url_library \<Rightarrow> string \<Rightarrow> string list \<Rightarrow> string \<Rightarrow> py_error + string list" where
  "extract_links lib base_url [] current_url = Inr []"
| "extract_links lib base_url (href # anchors) current_url =
     (case urljoin (bracket_check lib) current_url href of
        Inl e \<Rightarrow> Inl e
      | Inr absolute_url \<Rightarrow>
          (case is_valid_url lib base_url absolute_url of
             Inl e \<Rightarrow> Inl e
           | Inr valid \<Rightarrow>
               (case extract_links lib base_url anchors current_url of
                  Inl e \<Rightarrow> Inl e
                | Inr links \<Rightarrow> Inr (if valid then absolute_url # links else links))))"

text \<open>The exception, if any, that the body of the loop raises at one \<open>href\<close>.\<close>

definition href_error :: "url_library \<Rightarrow> string \<Rightarrow> string \<Rightarrow> string \<Rightarrow> py_error option" where
  "href_error lib base_url current_url href =
     (case urljoin (bracket_check lib) current_url href of
        Inl e \<Rightarrow> Some e
      | Inr absolute_url \<Rightarrow>
          (case is_valid_url lib base_url absolute_url of
             Inl e \<Rightarrow> Some e
           | Inr valid \<Rightarrow> None))"

text \<open>
  For the examples, a validator that accepts \<open>http://\<close> or \<open>https://\<close>, a host of two or
  more labels of lower-case letters and digits separated by dots, the last one of two
  or more letters, and then any text of URL characters: a narrow subset of what
  \<open>validators.url\<close> accepts.
\<close>

definition url_shape_ok :: "string \<Rightarrow> bool" where
  "url_shape_ok url =
     (let rest = (if prefix ''https://'' url then drop 8 url
                  else if prefix ''http://'' url then drop 7 url else []);
          host = takeWhile (\<lambda>c. c \<notin> set ''/?#'') rest;
          after = dropWhile (\<lambda>c. c \<notin> set ''/?#'') rest;
          labels = str_split host CHR ''.'';
          tld = concat (drop (length labels - 1) labels)
      in (prefix ''https://'' url \<or> prefix ''http://'' url)
         \<and> 2 \<le> length labels
         \<and> list_all (\<lambda>l. l \<noteq> []
               \<and> list_all (\<lambda>c. c \<in> set ''abcdefghijklmnopqrstuvwxyz0123456789'') l) labels
         \<and> 2 \<le> length tld
         \<and> list_all (\<lambda>c. c \<in> set ''abcdefghijklmnopqrstuvwxyz'') tld
         \<and> list_all (\<lambda>c. c \<in> set ''abcdefghijklmnopqrstuvwxyz0123456789-._~%/?#=&+'')
              after)"

definition example_library :: url_library where
  "example_library = \<lparr> validators_url = url_shape_ok, bracket_check = (\<lambda>host. None) \<rparr>"

section \<open>Crawl orchestrator (seo_crawler.py)\<close>

subsection \<open>Records and the crawler's surroundings\<close>

text \<open>
  \<open>analyze_page\<close> returns a dictionary with string keys. Its values are strings, the
  depth, the three metrics dictionaries of the analyzers (opaque here: \<open>'m\<close>) and the
  list of links.
\<close>

datatype 'm pyval = PStr string | PInt int | PMetrics 'm | PList "string list"

type_synonym 'm pydict = "(string \<times> 'm pyval) list"

text \<open>
  What lines 78 to 84 compute for a URL: the three metrics and the \<open>href\<close> values of the
  parsed page's anchors.
\<close>

record 'm analysis =
  seo_metrics :: 'm
  performance_metrics :: 'm
  content_metrics :: 'm
  anchors :: "string list"

text \<open>
  A crawler is the fields of \<open>SEOCrawler\<close> that are set once (\<open>base_url\<close>, \<open>depth\<close>,
  \<open>ignore_robots\<close>) and the world it runs in: \<open>robots_can_fetch\<close> is
  \<open>self.robots_parser.can_fetch\<close>, which always returns a boolean; \<open>get_page\<close> is
  \<open>get_page_content\<close> followed by the parser and the three analyzers, \<open>Inl msg\<close> when
  one of them raises an exception \<open>e\<close> with \<open>str(e) = msg\<close>. \<open>get_page_content\<close> does
  not read the status of the response, so an answer with status 404 or 500 is a page
  like any other (\<open>Inr\<close>).
\<close>

record 'm crawler =
  base_url :: string
  depth :: int
  ignore_robots :: bool
  robots_can_fetch :: "string \<Rightarrow> bool"
  get_page :: "string \<Rightarrow> string + 'm analysis"
  library :: url_library

subsection \<open>Calls of \<open>analyze_page\<close> as tasks\<close>

text \<open>
  Every call of \<open>analyze_page\<close> but the first runs on a worker thread of a
  \<open>ThreadPoolExecutor\<close>, so calls overlap in time. A call is a task with a program
  counter; one step of a task is one access to the shared set \<open>visited_urls\<close> or one
  stretch of code that touches no shared state:
  \<^item> \<open>Queued\<close>: submitted to the executor, not yet started by a worker;
  \<^item> \<open>AtCheck\<close>: before line 68, the test of the depth and of \<open>visited_urls\<close>;
  \<^item> \<open>AtRobots\<close>: before line 71, the robots test;
  \<^item> \<open>AtInsert\<close>: before line 75, \<open>self.visited_urls.add(url)\<close>;
  \<^item> \<open>AtFetch\<close>: before line 78, the body of the \<open>try\<close> down to the result dictionary;
  \<^item> \<open>AtSubmit links result\<close>: in the comprehension of lines 100 to 103, with \<open>links\<close>
    still to be looked at;
  \<^item> \<open>AtJoin result\<close>: at the end of the \<open>with\<close> block, which waits for the submitted
    calls (\<open>shutdown(wait=True)\<close>);
  \<^item> \<open>Returned result\<close>: the call has returned \<open>result\<close>.
\<close>

datatype 'm pc =
    Queued
  | AtCheck
  | AtRobots
  | AtInsert
  | AtFetch
  | AtSubmit "string list" "'m pydict"
  | AtJoin "'m pydict"
  | Returned "'m pydict"

record 'm task =
  task_url :: string
  task_depth :: int
  parent :: "nat option"
  task_pc :: "'m pc"

text \<open>
  The shared state: the set \<open>visited_urls\<close> and the tasks, a child naming its parent by
  position. \<open>fetch_log\<close> is not a variable of the program: it records every call of
  \<open>get_page_content\<close>, with the depth of the calling task.
\<close>

record 'm crawl_state =
  visited_urls :: "string set"
  fetch_log :: "(string \<times> int) list"
  tasks :: "'m task list"

definition goto :: "'m crawl_state \<Rightarrow> nat \<Rightarrow> 'm pc \<Rightarrow> 'm crawl_state" where
  "goto s i pc = s\<lparr> tasks := (tasks s)[i := (tasks s ! i)\<lparr> task_pc := pc \<rparr>] \<rparr>"

text \<open>\<open>executor.submit(self.analyze_page, link, depth + 1)\<close> by task \<open>i\<close>.\<close>

definition submit :: "'m crawl_state \<Rightarrow> string \<Rightarrow> int \<Rightarrow> nat \<Rightarrow> 'm crawl_state" where
  "submit s link d i =
     s\<lparr> tasks := tasks s @ [\<lparr> task_url = link, task_depth = d, parent = Some i,
                               task_pc = Queued \<rparr>] \<rparr>"

definition running :: "'m task \<Rightarrow> bool" where
  "running t = (case task_pc t of Queued \<Rightarrow> False | Returned result \<Rightarrow> False | _ \<Rightarrow> True)"

definition returned :: "'m task \<Rightarrow> bool" where
  "returned t = (case task_pc t of Returned result \<Rightarrow> True | _ \<Rightarrow> False)"

text \<open>
  An executor has \<open>max_workers=5\<close> threads and hands its tasks out in the order of their
  submission: a queued task can start when fewer than five tasks of the same executor
  are running and none submitted before it is still queued.
\<close>

definition can_start :: "'m task list \<Rightarrow> nat \<Rightarrow> bool" where
  "can_start ts i =
     (length (filter (\<lambda>t. parent t = parent (ts ! i) \<and> running t) ts) < 5
      \<and> filter (\<lambda>t. parent t = parent (ts ! i) \<and> task_pc t = Queued) (take i ts) = [])"

definition children_returned :: "'m task list \<Rightarrow> nat \<Rightarrow> bool" where
  "children_returned ts i = list_all returned (filter (\<lambda>t. parent t = Some i) ts)"

text \<open>
  The body of the \<open>try\<close>, lines 78 to 96, and its \<open>except\<close> clause: the program counter
  after it.
\<close>

definition try_body :: "'m crawler \<Rightarrow> string \<Rightarrow> int \<Rightarrow> 'm pc" where
  "try_body c url d =
     (case get_page c url of
        Inl msg \<Rightarrow> Returned [(''url'', PStr url), (''error'', PStr msg)]
      | Inr page \<Rightarrow>
          (case extract_links (library c) (base_url c) (anchors page) url of
             Inl e \<Rightarrow> Returned [(''url'', PStr url), (''error'', PStr (str_of_error e))]
           | Inr links \<Rightarrow>
               AtSubmit links
                 [(''url'', PStr url),
                  (''depth'', PInt d),
                  (''seo_metrics'', PMetrics (seo_metrics page)),
                  (''performance_metrics'', PMetrics (performance_metrics page)),
                  (''content_metrics'', PMetrics (content_metrics page)),
                  (''links'', PList links)]))"

text \<open>
  One step of task \<open>i\<close>; \<open>None\<close> when there is no such task or it cannot move (it has
  returned, it waits for a worker, or it waits for its children).
\<close>

definition step :: "'m crawler \<Rightarrow> nat \<Rightarrow> 'm crawl_state \<Rightarrow> 'm crawl_state option" where
  "step c i s =
     (if length (tasks s) \<le> i then None
      else
        (case task_pc (tasks s ! i) of
           Queued \<Rightarrow> if can_start (tasks s) i then Some (goto s i AtCheck) else None
         | AtCheck \<Rightarrow>
             Some (goto s i
                    (if depth c < task_depth (tasks s ! i)
                        \<or> task_url (tasks s ! i) \<in> visited_urls s
                     then Returned [] else AtRobots))
         | AtRobots \<Rightarrow>
             Some (goto s i
                    (if \<not> ignore_robots c \<and> \<not> robots_can_fetch c (task_url (tasks s ! i))
                     then Returned [] else AtInsert))
         | AtInsert \<Rightarrow>
             Some (goto (s\<lparr> visited_urls := insert (task_url (tasks s ! i)) (visited_urls s) \<rparr>)
                    i AtFetch)
         | AtFetch \<Rightarrow>
             Some (goto (s\<lparr> fetch_log := fetch_log s
                               @ [(task_url (tasks s ! i), task_depth (tasks s ! i))] \<rparr>)
                    i (try_body c (task_url (tasks s ! i)) (task_depth (tasks s ! i))))
         | AtSubmit links result \<Rightarrow>
             (case links of
                [] \<Rightarrow> Some (goto s i (AtJoin result))
              | link # rest \<Rightarrow>
                  Some (goto (if link \<notin> visited_urls s
                              then submit s link (task_depth (tasks s ! i) + 1) i else s)
                         i (AtSubmit rest result)))
         | AtJoin result \<Rightarrow>
             if children_returned (tasks s) i then Some (goto s i (Returned result)) else None
         | Returned result \<Rightarrow> None))"

text \<open>A run under a schedule, the list of the tasks that move, in order.\<close>

fun run :: "'m crawler \<Rightarrow> nat list \<Rightarrow> 'm crawl_state \<Rightarrow> 'm crawl_state option" where
  "run c [] s = Some s"
| "run c (i # schedule) s =
     (case step c i s of None \<Rightarrow> None | Some s' \<Rightarrow> run c schedule s')"

text \<open>
  \<open>crawl\<close> starts with an empty \<open>visited_urls\<close> and calls \<open>analyze_page(base_url, 0)\<close> on
  the main thread; what it returns is the result of that first call.
\<close>

definition init :: "'m crawler \<Rightarrow> 'm crawl_state" where
  "init c =
     \<lparr> visited_urls = {}, fetch_log = [],
       tasks = [\<lparr> task_url = base_url c, task_depth = 0, parent = None,
                  task_pc = AtCheck \<rparr>] \<rparr>"

definition crawl_result :: "'m crawl_state \<Rightarrow> 'm pydict option" where
  "crawl_result s =
     (case tasks s of
        [] \<Rightarrow> None
      | t # ts \<Rightarrow> (case task_pc t of Returned result \<Rightarrow> Some result | _ \<Rightarrow> None))"

text \<open>
  The depth entry of a record, and \<open>list(result.keys())\<close>: the fields that a record
  has, in the order of their insertion.
\<close>

definition keys :: "'m pydict \<Rightarrow> string list" where
  "keys result = map fst result"

definition record_depth :: "'m pydict \<Rightarrow> int option" where
  "record_depth result = (case map_of result ''depth'' of Some (PInt d) \<Rightarrow> Some d | _ \<Rightarrow> None)"

subsection \<open>Small sites and their schedules\<close>

text \<open>
  The home page of the first site links twice to the same page \<open>/a\<close>. The home page of
  the second links to \<open>/b\<close>, whose fetch fails, and to \<open>/a\<close>. The third is the first
  with depth bound 0. The metrics are numbers that stand for the analyzers'
  dictionaries.
\<close>

definition twice_linked_site :: "nat crawler" where
  "twice_linked_site =
     \<lparr> base_url = ''https://ex.com'', depth = 3, ignore_robots = False,
       robots_can_fetch = (\<lambda>url. True),
       get_page = (\<lambda>url.
         if url = ''https://ex.com''
         then Inr \<lparr> seo_metrics = 1, performance_metrics = 2, content_metrics = 3,
                    anchors = [''/a'', ''/a''] \<rparr>
         else if url = ''https://ex.com/a''
         then Inr \<lparr> seo_metrics = 4, performance_metrics = 5, content_metrics = 6,
                    anchors = [] \<rparr>
         else Inl ''404 Client Error''),
       library = example_library \<rparr>"


definition shallow_site :: "nat crawler" where
  "shallow_site = twice_linked_site\<lparr> depth := 0 \<rparr>"

text \<open>
  Four schedules. In each the first call runs down to the end of its \<open>with\<close> block
  (seven steps), the submitted calls run, and the first call returns. In
  \<open>racing_schedule\<close> the two submitted calls advance in turn, as two worker threads can;
  in \<open>sequential_schedule\<close> and \<open>failing_schedule\<close> the second starts when the first
  has returned, and in \<open>shallow_schedule\<close> both end at their first test.
\<close>

definition racing_schedule :: "nat list" where
  "racing_schedule = [0, 0, 0, 0, 0, 0, 0, 1, 2, 1, 2, 1, 2, 1, 2, 1, 2, 1, 2, 1, 2, 0]"

definition sequential_schedule :: "nat list" where
  "sequential_schedule = [0, 0, 0, 0, 0, 0, 0, 1, 1, 1, 1, 1, 1, 1, 2, 2, 0]"


definition shallow_schedule :: "nat list" where
  "shallow_schedule = [0, 0, 0, 0, 0, 0, 0, 1, 1, 2, 2, 0]"

subsection \<open>Invariants of the reachable states\<close>

text \<open>
  A task beyond its first test is within the depth bound, and a record with a depth
  entry carries the depth of its task.
\<close>

definition task_ok :: "int \<Rightarrow> 'm task \<Rightarrow> bool" where
  "task_ok max_depth t =
     (case task_pc t of
        Queued \<Rightarrow> True
      | AtCheck \<Rightarrow> True
      | AtRobots \<Rightarrow> task_depth t \<le> max_depth
      | AtInsert \<Rightarrow> task_depth t \<le> max_depth
      | AtFetch \<Rightarrow> task_depth t \<le> max_depth
      | AtSubmit links result \<Rightarrow>
          task_depth t \<le> max_depth \<and> record_depth result = Some (task_depth t)
      | AtJoin result \<Rightarrow>
          task_depth t \<le> max_depth \<and> record_depth result = Some (task_depth t)
      | Returned result \<Rightarrow>
          result = []
          \<or> (task_depth t \<le> max_depth
              \<and> (record_depth result = None \<or> record_depth result = Some (task_depth t))))"

definition depth_inv :: "'m crawler \<Rightarrow> 'm crawl_state \<Rightarrow> bool" where
  "depth_inv c s =
     (list_all (task_ok (depth c)) (tasks s)
      \<and> list_all (\<lambda>(url, d). d \<le> depth c) (fetch_log s))"

text \<open>
  The order of insertion and fetch within one call: a task about to fetch has its URL
  in \<open>visited_urls\<close>, and so has every call of \<open>get_page_content\<close> that was made.
\<close>

definition fetch_inv :: "'m crawl_state \<Rightarrow> bool" where
  "fetch_inv s =
     (list_all (\<lambda>t. task_url t \<in> visited_urls s \<or> task_pc t \<noteq> AtFetch) (tasks s)
      \<and> list_all (\<lambda>(url, d). url \<in> visited_urls s) (fetch_log s))"

section \<open>Theorems\<close>

subsection \<open>Strings\<close>

lemma str_contains_iff: "str_contains needle hay = sublist needle hay"
  by (induction hay) (auto simp: sublist_Cons_right)

lemma str_nat_digit: "n < 10 \<Longrightarrow> str_nat n = [digit_char n]"
  by (simp add: str_nat.simps)

subsection \<open>Performance score ladder\<close>

text \<open>
  C9. For every load time \<open>t\<close> the score reported by \<open>analyze_load_time\<close> is 1.0 exactly
  on \<open>t \<le> 1.0\<close>, 0.8 exactly on \<open>1.0 < t \<le> 2.5\<close>, 0.6 exactly on \<open>2.5 < t \<le> 4.0\<close>,
  0.4 exactly on \<open>4.0 < t \<le> 6.0\<close> and 0.2 exactly on \<open>6.0 < t\<close>; the acceptable flag is
  true exactly when \<open>t < 3.0\<close>; and a load time of 2.0 seconds gives score 0.8 and
  acceptable.
\<close>

theorem performance_ladder:
  "(performance_score (analyze_load_time t) = 1.0) = (t \<le> 1.0)
   \<and> (performance_score (analyze_load_time t) = 0.8) = (1.0 < t \<and> t \<le> 2.5)
   \<and> (performance_score (analyze_load_time t) = 0.6) = (2.5 < t \<and> t \<le> 4.0)
   \<and> (performance_score (analyze_load_time t) = 0.4) = (4.0 < t \<and> t \<le> 6.0)
   \<and> (performance_score (analyze_load_time t) = 0.2) = (6.0 < t)
   \<and> load_time_acceptable (analyze_load_time t) = (t < 3.0)
   \<and> load_time_seconds (analyze_load_time t) = t
   \<and> performance_score (analyze_load_time 2.0) = 0.8
   \<and> load_time_acceptable (analyze_load_time 2.0)"
  by (simp add: analyze_load_time_def calculate_performance_score_def)

subsection \<open>Heading structure\<close>

text \<open>
  Once a populated level has been seen, \<open>last_level\<close> is populated, so the test
  \<open>headings[last_level] == 0\<close> can never succeed again: the loop adds nothing.
\<close>

lemma skipped_levels_populated:
  "0 < headings (hkey last_level) \<Longrightarrow>
   skipped_levels headings levels last_level issues = issues"
  by (induction levels arbitrary: last_level issues) (auto simp: Let_def)

lemma hkey_1: "hkey 1 = ''h1''"
  by (simp add: hkey_def str_nat_digit digit_char_def)

text \<open>
  Hence a page that has an h1 never gets a skipped-level issue, whatever levels below
  it are missing.
\<close>

lemma no_skip_issue_with_h1:
  "0 < headings ''h1'' \<Longrightarrow>
   check_heading_structure headings =
     (if headings ''h1'' > 1 then [''Multiple H1 tags''] else [])"
proof -
  assume h1: "0 < headings ''h1''"
  then have "0 < headings (hkey 1)"
    by (simp only: hkey_1)
  then have loop: "skipped_levels headings [2, 3, 4, 5, 6] 1 issues = issues" for issues
    by (rule skipped_levels_populated)
  show ?thesis
    unfolding check_heading_structure_def Let_def loop using h1 by simp
qed

text \<open>
  C6, at the page of the claim: one h1, no h2, one h3 and nothing below. The claim
  expects a skipped-level issue; \<open>_check_heading_structure\<close> returns no issue at all.
\<close>

theorem heading_h1_h3_not_flagged:
  "check_heading_structure
     (\<lambda>key. if key = ''h1'' then 1 else if key = ''h3'' then 1 else 0) = []"
  by (simp add: check_heading_structure_def hkey_def str_nat_digit digit_char_def)

text \<open>
  The only skipped-level issue the code can report: no h1, and the first populated
  level below it, named as a skip from h1.
\<close>

lemma heading_h2_only:
  "check_heading_structure (\<lambda>key. if key = ''h2'' then 1 else 0) =
     [''Missing H1 tag'', ''Skipped heading level: h1 to h2'']"
  by (simp add: check_heading_structure_def hkey_def str_nat_digit digit_char_def)

subsection \<open>Link census\<close>

lemma classify_links_filter:
  "classify_links cur hrefs (internal, external) =
     (internal @ filter (\<lambda>href. \<not> (startswith href ''#'' \<or> href = [])
                        \<and> \<not> (startswith href ''http'' \<and> \<not> str_contains cur href)) hrefs,
      external @ filter (\<lambda>href. \<not> (startswith href ''#'' \<or> href = [])
                        \<and> startswith href ''http'' \<and> \<not> str_contains cur href) hrefs)"
  by (induction hrefs arbitrary: internal external) auto

text \<open>
  C10. The census skips the hrefs whose href is empty or starts with \<open>#\<close>. Of the
  others, the external links are exactly those whose href starts with \<open>http\<close> and does
  not have the whole current URL as a substring, and the internal links are all the
  rest. So \<open>https://ex.com/b\<close>, found on \<open>https://ex.com/a\<close>, is counted external.
\<close>

theorem link_census_classification:
  "external_links (analyze_links hrefs cur) =
     length (filter (\<lambda>href. href \<noteq> [] \<and> \<not> prefix ''#'' href
                       \<and> prefix ''http'' href \<and> \<not> sublist cur href) hrefs)
   \<and> internal_links (analyze_links hrefs cur) =
     length (filter (\<lambda>href. href \<noteq> [] \<and> \<not> prefix ''#'' href
                       \<and> \<not> (prefix ''http'' href \<and> \<not> sublist cur href)) hrefs)
   \<and> total_links (analyze_links hrefs cur) = length hrefs
   \<and> analyze_links [''https://ex.com/b''] ''https://ex.com/a'' =
       \<lparr> total_links = 1, internal_links = 0, external_links = 1, broken_links = [] \<rparr>"
proof -
  have ext: "(\<lambda>href. \<not> (startswith href ''#'' \<or> href = [])
                \<and> startswith href ''http'' \<and> \<not> str_contains cur href)
           = (\<lambda>href. href \<noteq> [] \<and> \<not> prefix ''#'' href
                \<and> prefix ''http'' href \<and> \<not> sublist cur href)"
    by (auto simp: startswith_def str_contains_iff)
  have int: "(\<lambda>href. \<not> (startswith href ''#'' \<or> href = [])
                \<and> \<not> (startswith href ''http'' \<and> \<not> str_contains cur href))
           = (\<lambda>href. href \<noteq> [] \<and> \<not> prefix ''#'' href
                \<and> \<not> (prefix ''http'' href \<and> \<not> sublist cur href))"
    by (auto simp: startswith_def str_contains_iff)
  have general: "classify_links cur hrefs ([], []) =
      (filter (\<lambda>href. href \<noteq> [] \<and> \<not> prefix ''#'' href
                 \<and> \<not> (prefix ''http'' href \<and> \<not> sublist cur href)) hrefs,
       filter (\<lambda>href. href \<noteq> [] \<and> \<not> prefix ''#'' href
                 \<and> prefix ''http'' href \<and> \<not> sublist cur href) hrefs)"
    by (simp only: classify_links_filter ext int append_Nil)
  have example: "analyze_links [''https://ex.com/b''] ''https://ex.com/a'' =
       \<lparr> total_links = 1, internal_links = 0, external_links = 1, broken_links = [] \<rparr>"
    by (simp add: analyze_links_def startswith_def)
  show ?thesis
    using example by (simp add: analyze_links_def general)
qed

subsection \<open>Readability of a single sentence\<close>

text \<open>A text without \<open>.\<close>, \<open>!\<close> and \<open>?\<close> is one sentence.\<close>

lemma split_sentences_from_plain:
  "list_all (\<lambda>c. \<not> sentence_end c) body \<Longrightarrow> split_sentences_from piece body = [piece @ body]"
  by (induction body arbitrary: piece) auto

lemma split_into_sentences_plain:
  "list_all (\<lambda>c. \<not> sentence_end c) body \<Longrightarrow> split_into_sentences body = [body]"
  by (simp add: split_into_sentences_def split_sentences_from_plain)

lemma sum_syllables_one_each:
  "list_all (\<lambda>w. count_syllables w = Inr 1) ws \<Longrightarrow> sum_syllables ws = Inr (int (length ws))"
  by (induction ws) auto

text \<open>
  Without a sentence terminator the score is the formula of the claim at \<open>N\<close> words per
  sentence and one syllable per word, before it is rounded.
\<close>

lemma flesch_unterminated_sentence:
  assumes "list_all (\<lambda>c. \<not> sentence_end c) body"
    and "list_all (\<lambda>w. count_syllables w = Inr 1) (split_into_words body)"
    and "split_into_words body \<noteq> []"
  shows "\<exists>r. analyze_readability round2 body = Inr r
             \<and> flesch_reading_ease r =
                 round2 (206.835 - 1.015 * real (length (split_into_words body)) - 84.6 * 1)"
  using assms
  by (simp add: analyze_readability_def split_into_sentences_plain sum_syllables_one_each Let_def)

text \<open>
  C8, at the one-sentence text \<open>a cat sat.\<close> of three one-syllable words. The split at
  the final period leaves an empty second piece, which is counted as a sentence: the
  average sentence length is 3 / 2 and not 3, and the score before rounding is 120.7125
  and not \<open>206.835 - 1.015 * 3 - 84.6 * 1 = 119.19\<close>.
\<close>

theorem flesch_one_sentence_with_period:
  "split_into_sentences ''a cat sat.'' = [''a cat sat'', '''']
   \<and> split_into_words ''a cat sat.'' = [''a'', ''cat'', ''sat'']
   \<and> map count_syllables [''a'', ''cat'', ''sat''] = [Inr 1, Inr 1, Inr 1]
   \<and> analyze_readability round2 ''a cat sat.'' =
       Inr \<lparr> flesch_reading_ease = round2 120.7125,
             avg_sentence_length = round2 1.5,
             avg_syllables_per_word = round2 1,
             readability_level = ''Very Easy'' \<rparr>
   \<and> (120.7125 :: real) \<noteq> 206.835 - 1.015 * 3 - 84.6 * 1"
proof -
  have sentences: "split_into_sentences ''a cat sat.'' = [''a cat sat'', '''']"
    by (simp add: split_into_sentences_def sentence_end_def)
  have words: "split_into_words ''a cat sat.'' = [''a'', ''cat'', ''sat'']"
    by (simp add: word_char_def)
  have syllables: "map count_syllables [''a'', ''cat'', ''sat''] = [Inr 1, Inr 1, Inr 1]"
    by (simp add: count_syllables_def lower_char_def is_vowel_def)
  have total: "sum_syllables [''a'', ''cat'', ''sat''] = Inr 3"
    using syllables by simp
  have report: "analyze_readability round2 ''a cat sat.'' =
       Inr \<lparr> flesch_reading_ease = round2 120.7125,
             avg_sentence_length = round2 1.5,
             avg_syllables_per_word = round2 1,
             readability_level = ''Very Easy'' \<rparr>"
    unfolding analyze_readability_def sentences words Let_def total
    by (simp add: get_readability_level_def)
  show ?thesis
    using sentences words syllables report by simp
qed

subsection \<open>Link extraction\<close>

lemmas url_defs =
  urljoin_def urlparse_def urlsplit_def Let_def split_once_def splitnetloc_def
  c0_control_or_space_def unsafe_url_byte_def ascii_alpha_def scheme_chars_def lower_char_def
  uses_params_def uses_relative_def uses_netloc_def urlunparse_def urlunsplit_def
  str_split_def drop_empty_middle_def strip_c0_def

text \<open>The three links of the example page \<open>https://ex.com/blog/post\<close>, and the empty one.\<close>

lemma urljoin_fragment:
  "urljoin check ''https://ex.com/blog/post'' ''#top'' = Inr ''https://ex.com/blog/post#top''"
  by (simp add: url_defs)

lemma urljoin_parent:
  "urljoin check ''https://ex.com/blog/post'' ''../about'' = Inr ''https://ex.com/about''"
  by (simp add: url_defs)

lemma urljoin_other_host:
  "urljoin check ''https://ex.com/blog/post'' ''https://other.com/x'' = Inr ''https://other.com/x''"
  by (simp add: url_defs)

lemma urljoin_empty:
  "urljoin check ''https://ex.com/blog/post'' '''' = Inr ''https://ex.com/blog/post''"
  by (simp add: urljoin_def)

lemma valid_fragment:
  "is_valid_url example_library ''https://ex.com'' ''https://ex.com/blog/post#top'' = Inr True"
  by (simp add: is_valid_url_def example_library_def url_shape_ok_def url_defs)

lemma valid_parent:
  "is_valid_url example_library ''https://ex.com'' ''https://ex.com/about'' = Inr True"
  by (simp add: is_valid_url_def example_library_def url_shape_ok_def url_defs)

lemma valid_self:
  "is_valid_url example_library ''https://ex.com'' ''https://ex.com/blog/post'' = Inr True"
  by (simp add: is_valid_url_def example_library_def url_shape_ok_def url_defs)

text \<open>The foreign link is a well-formed URL; it is its host that excludes it.\<close>

lemma other_host_well_formed: "validators_url example_library ''https://other.com/x''"
  by (simp add: example_library_def url_shape_ok_def url_defs)

lemma netloc_other_host:
  "urlparse check ''https://other.com/x'' [] =
     Inr \<lparr> pr_scheme = ''https'', pr_netloc = ''other.com'', pr_path = ''/x'',
           pr_params = [], pr_query = [], pr_fragment = [] \<rparr>"
  by (simp add: url_defs)

lemma netloc_base:
  "urlparse check ''https://ex.com'' [] =
     Inr \<lparr> pr_scheme = ''https'', pr_netloc = ''ex.com'', pr_path = [],
           pr_params = [], pr_query = [], pr_fragment = [] \<rparr>"
  by (simp add: url_defs)

lemma invalid_other_host:
  "is_valid_url example_library ''https://ex.com'' ''https://other.com/x'' = Inr False"
  by (simp add: is_valid_url_def other_host_well_formed netloc_other_host netloc_base)

text \<open>
  C5 as stated fails: the anchor \<open>#top\<close> of the page \<open>https://ex.com/blog/post\<close> is not
  dropped, it is extracted as the page's own URL with the fragment, and the anchor with
  an empty href is extracted as the page's own URL.
\<close>

theorem extract_links_keeps_fragment:
  "extract_links example_library ''https://ex.com'' [''#top''] ''https://ex.com/blog/post''
     = Inr [''https://ex.com/blog/post#top'']
   \<and> extract_links example_library ''https://ex.com'' [''#top''] ''https://ex.com/blog/post''
     \<noteq> Inr []
   \<and> extract_links example_library ''https://ex.com'' [''''] ''https://ex.com/blog/post''
     = Inr [''https://ex.com/blog/post'']"
  by (simp add: urljoin_fragment urljoin_empty valid_fragment valid_self)

lemma urljoin_open_bracket:
  "urljoin check ''https://ex.com/blog/post'' ''//[x'' = Inl (ValueError ''Invalid IPv6 URL'')"
  by (simp add: url_defs)

text \<open>One turn of the loop: it raises at the href, or it goes on with the rest.\<close>

lemma extract_links_cons:
  "extract_links lib base (href # hrefs) current_url =
     (case href_error lib base current_url href of
        Some e \<Rightarrow> Inl e
      | None \<Rightarrow>
          (case extract_links lib base hrefs current_url of
             Inl e \<Rightarrow> Inl e
           | Inr links \<Rightarrow>
               Inr (filter (\<lambda>absolute_url. is_valid_url lib base absolute_url = Inr True)
                      (case urljoin (bracket_check lib) current_url href of
                         Inl e \<Rightarrow> [] | Inr absolute_url \<Rightarrow> [absolute_url])
                    @ links)))"
  by (auto simp: href_error_def split: sum.splits)

text \<open>
  C5, amended. Link extraction resolves the href of every anchor against the current
  URL, the empty and the fragment-only ones too. When \<open>urljoin\<close> or \<open>urlparse\<close> raises at
  some href, \<open>extract_links\<close> raises the exception of the first such href and returns no
  list. Otherwise it returns, in document order, exactly the resolved URLs that
  \<open>validators.url\<close> accepts and whose netloc is that of the base URL. On
  \<open>https://ex.com/blog/post\<close>, \<open>../about\<close> resolves to \<open>https://ex.com/about\<close> and is kept,
  \<open>#top\<close> is kept as \<open>https://ex.com/blog/post#top\<close>, and \<open>https://other.com/x\<close>, a
  well-formed URL, is excluded because its netloc is not \<open>ex.com\<close>; with the href \<open>//[x\<close>
  among the anchors the extraction raises a ValueError.
\<close>

theorem extract_links_valid_same_host:
  "extract_links lib base hrefs current_url =
     (case concat (map (\<lambda>href. case href_error lib base current_url href of
                                  None \<Rightarrow> [] | Some e \<Rightarrow> [e]) hrefs) of
        e # es \<Rightarrow> Inl e
      | [] \<Rightarrow>
          Inr (filter (\<lambda>absolute_url. is_valid_url lib base absolute_url = Inr True)
                 (concat (map (\<lambda>href. case urljoin (bracket_check lib) current_url href of
                                          Inl e \<Rightarrow> [] | Inr absolute_url \<Rightarrow> [absolute_url])
                            hrefs))))
   \<and> urljoin check ''https://ex.com/blog/post'' ''../about'' = Inr ''https://ex.com/about''
   \<and> extract_links example_library ''https://ex.com''
         [''../about'', ''#top'', ''https://other.com/x''] ''https://ex.com/blog/post''
       = Inr [''https://ex.com/about'', ''https://ex.com/blog/post#top'']
   \<and> validators_url example_library ''https://other.com/x''
   \<and> is_valid_url example_library ''https://ex.com'' ''https://other.com/x'' = Inr False
   \<and> extract_links example_library ''https://ex.com''
         [''../about'', ''//[x'', ''#top''] ''https://ex.com/blog/post''
       = Inl (ValueError ''Invalid IPv6 URL'')"
proof -
  have general: "extract_links lib base hrefs current_url =
     (case concat (map (\<lambda>href. case href_error lib base current_url href of
                                  None \<Rightarrow> [] | Some e \<Rightarrow> [e]) hrefs) of
        e # es \<Rightarrow> Inl e
      | [] \<Rightarrow>
          Inr (filter (\<lambda>absolute_url. is_valid_url lib base absolute_url = Inr True)
                 (concat (map (\<lambda>href. case urljoin (bracket_check lib) current_url href of
                                          Inl e \<Rightarrow> [] | Inr absolute_url \<Rightarrow> [absolute_url])
                            hrefs))))"
  proof (induction hrefs)
    case Nil
    show ?case by simp
  next
    case (Cons href hrefs)
    show ?case
    proof (cases "href_error lib base current_url href")
      case (Some e)
      then show ?thesis
        by (simp only: extract_links_cons) simp
    next
      case None
      then show ?thesis
        by (simp only: extract_links_cons Cons.IH)
           (simp split: list.splits del: concat_eq_Nil_conv Nil_eq_concat_conv)
    qed
  qed
  have example: "extract_links example_library ''https://ex.com''
         [''../about'', ''#top'', ''https://other.com/x''] ''https://ex.com/blog/post''
       = Inr [''https://ex.com/about'', ''https://ex.com/blog/post#top'']"
    by (simp add: urljoin_parent urljoin_fragment urljoin_other_host
          valid_parent valid_fragment invalid_other_host)
  have raising: "extract_links example_library ''https://ex.com''
         [''../about'', ''//[x'', ''#top''] ''https://ex.com/blog/post''
       = Inl (ValueError ''Invalid IPv6 URL'')"
    by (simp add: urljoin_parent urljoin_open_bracket valid_parent)
  show ?thesis
    using general example raising urljoin_parent other_host_well_formed invalid_other_host
    by blast
qed

text \<open>
  The two cases of the theorem on the page \<open>https://ex.com/blog/post\<close>: no href raises
  and the list is the filtered one; the second href raises and so does the extraction.
\<close>

theorem extract_links_valid_same_host_witness:
  "extract_links example_library ''https://ex.com'' [''../about'', ''#top'']
       ''https://ex.com/blog/post''
     = Inr [''https://ex.com/about'', ''https://ex.com/blog/post#top'']
   \<and> extract_links example_library ''https://ex.com'' [''../about'', ''//[x'', ''#top'']
       ''https://ex.com/blog/post''
     = Inl (ValueError ''Invalid IPv6 URL'')"
proof -
  have no_error: "href_error example_library ''https://ex.com'' ''https://ex.com/blog/post''
                    ''../about'' = None"
    "href_error example_library ''https://ex.com'' ''https://ex.com/blog/post'' ''#top'' = None"
    by (simp_all add: href_error_def urljoin_parent urljoin_fragment valid_parent valid_fragment)
  have error: "href_error example_library ''https://ex.com'' ''https://ex.com/blog/post''
                 ''//[x'' = Some (ValueError ''Invalid IPv6 URL'')"
    by (simp add: href_error_def urljoin_open_bracket)
  have kept: "extract_links example_library ''https://ex.com'' [''../about'', ''#top'']
       ''https://ex.com/blog/post''
     = Inr [''https://ex.com/about'', ''https://ex.com/blog/post#top'']"
    by (subst extract_links_valid_same_host
                [of example_library "''https://ex.com''" "[''../about'', ''#top'']"
                    "''https://ex.com/blog/post''", THEN conjunct1])
       (simp add: no_error urljoin_parent urljoin_fragment valid_parent valid_fragment)
  have raised: "extract_links example_library ''https://ex.com'' [''../about'', ''//[x'', ''#top'']
       ''https://ex.com/blog/post''
     = Inl (ValueError ''Invalid IPv6 URL'')"
    by (subst extract_links_valid_same_host
                [of example_library "''https://ex.com''" "[''../about'', ''//[x'', ''#top'']"
                    "''https://ex.com/blog/post''", THEN conjunct1])
       (simp add: no_error error)
  from kept raised show ?thesis
    by simp
qed

subsection \<open>Robots gate\<close>

text \<open>
  What the gate does guarantee: it always returns a boolean, it permits when there is no
  parser, there is no parser when the request for robots.txt raised, and it denies
  exactly when the parser it kept denies.
\<close>

lemma can_fetch_returns: "\<exists>allowed. can_fetch lib parser url agent = Inr allowed"
  by (auto simp: can_fetch_def split: option.splits sum.splits)

lemma can_fetch_no_parser: "can_fetch lib None url agent = Inr True"
  by (simp add: can_fetch_def)

lemma initialize_parser_raises:
  "urljoin (host_check lib) base ''/robots.txt'' = Inr robots_url \<Longrightarrow>
   urlopen lib robots_url = Raises msg \<Longrightarrow> initialize_parser lib base = None"
  by (simp add: initialize_parser_def parser_read_def split: sum.splits)

lemma can_fetch_false_iff:
  "(can_fetch lib parser url agent = Inr False)
     = (\<exists>p. parser = Some p \<and> parser_can_fetch lib p agent url = Inr False)"
  by (auto simp: can_fetch_def split: option.splits sum.splits)

lemma robots_url:
  "urljoin check ''https://ex.com'' ''/robots.txt'' = Inr ''https://ex.com/robots.txt''"
  by (simp add: url_defs)

lemma robots_url_parses:
  "urlparse check ''https://ex.com/robots.txt'' [] =
     Inr \<lparr> pr_scheme = ''https'', pr_netloc = ''ex.com'', pr_path = ''/robots.txt'',
           pr_params = [], pr_query = [], pr_fragment = [] \<rparr>"
  by (simp add: url_defs)

lemma initialize_parser_http_error:
  "initialize_parser (lib\<lparr> urlopen := \<lambda>url. HTTPError code \<rparr>) ''https://ex.com'' =
     Some (if code = 401 \<or> code = 403 then new_parser\<lparr> disallow_all := True \<rparr>
           else if 400 \<le> code \<and> code < 500 then new_parser\<lparr> allow_all := True \<rparr>
           else new_parser)"
  by (simp add: initialize_parser_def robots_url robots_url_parses parser_read_def)

text \<open>
  C7, at a site whose robots.txt is answered with the status 500, for every URL and
  agent. \<open>read\<close> catches the \<open>HTTPError\<close> and changes nothing, so no exception reaches
  \<open>initialize_parser\<close>: the gate keeps the new parser, which has read no policy, and
  \<open>can_fetch\<close> returns \<open>False\<close>. The same holds at the status 403, where \<open>read\<close> sets
  \<open>disallow_all\<close>. The claim expects \<open>True\<close>: no policy could be loaded.
\<close>

theorem robots_server_error_denies_all:
  "initialize_parser (lib\<lparr> urlopen := \<lambda>url. HTTPError 500 \<rparr>) ''https://ex.com''
     = Some new_parser
   \<and> can_fetch (lib\<lparr> urlopen := \<lambda>url. HTTPError 500 \<rparr>)
       (initialize_parser (lib\<lparr> urlopen := \<lambda>url. HTTPError 500 \<rparr>) ''https://ex.com'')
       url agent
     = Inr False
   \<and> initialize_parser (lib\<lparr> urlopen := \<lambda>url. HTTPError 403 \<rparr>) ''https://ex.com''
     = Some (new_parser\<lparr> disallow_all := True \<rparr>)
   \<and> can_fetch (lib\<lparr> urlopen := \<lambda>url. HTTPError 403 \<rparr>)
       (initialize_parser (lib\<lparr> urlopen := \<lambda>url. HTTPError 403 \<rparr>) ''https://ex.com'')
       url agent
     = Inr False"
  by (simp add: initialize_parser_http_error can_fetch_def parser_can_fetch_def new_parser_def)

subsection \<open>Crawl orchestrator: the depth bound\<close>

lemma list_all_update:
  "list_all P xs \<Longrightarrow> P x \<Longrightarrow> list_all P (xs[i := x])"
  by (induction xs arbitrary: i) (auto split: nat.splits)

lemma list_all_nth: "list_all P xs \<Longrightarrow> i < length xs \<Longrightarrow> P (xs ! i)"
  by (simp add: list_all_length)

lemma try_body_ok:
  "d \<le> max_depth \<Longrightarrow> task_ok max_depth (t\<lparr> task_depth := d, task_pc := try_body c url d \<rparr>)"
  by (simp add: task_ok_def try_body_def record_depth_def split: sum.splits)

lemma goto_ok:
  assumes "depth_inv c s" and "i < length (tasks s)"
    and "task_ok (depth c) ((tasks s ! i)\<lparr> task_pc := pc \<rparr>)"
  shows "depth_inv c (goto s i pc)"
  using assms by (simp add: depth_inv_def goto_def list_all_update)

text \<open>Every step keeps the bound; the proof goes through the program counters.\<close>

lemma step_depth_inv:
  assumes "step c i s = Some s'" and "depth_inv c s"
  shows "depth_inv c s'"
proof -
  from assms(1) have i: "i < length (tasks s)"
    by (auto simp: step_def split: if_splits)
  from assms(2) i have ti: "task_ok (depth c) (tasks s ! i)"
    by (simp add: depth_inv_def list_all_nth)
  show ?thesis
  proof (cases "task_pc (tasks s ! i)")
    case Queued
    with assms i show ?thesis
      by (auto simp: step_def task_ok_def split: if_splits intro!: goto_ok)
  next
    case AtCheck
    with assms i show ?thesis
      by (auto simp: step_def task_ok_def split: if_splits intro!: goto_ok)
  next
    case AtRobots
    with assms i ti show ?thesis
      by (auto simp: step_def task_ok_def split: if_splits intro!: goto_ok)
  next
    case AtInsert
    with assms i ti show ?thesis
      by (auto simp: step_def task_ok_def depth_inv_def goto_def list_all_update split: if_splits)
  next
    case AtFetch
    with ti have d: "task_depth (tasks s ! i) \<le> depth c"
      by (simp add: task_ok_def)
    from try_body_ok [OF d, where t = "tasks s ! i" and c = c and url = "task_url (tasks s ! i)"]
    have "task_ok (depth c)
            ((tasks s ! i)\<lparr> task_pc := try_body c (task_url (tasks s ! i))
                                            (task_depth (tasks s ! i)) \<rparr>)"
      by simp
    with AtFetch assms i d show ?thesis
      by (auto simp: step_def depth_inv_def goto_def list_all_update)
  next
    case (AtSubmit links result)
    with assms i ti show ?thesis
      by (cases links)
         (auto simp: step_def task_ok_def depth_inv_def goto_def submit_def
               list_all_update nth_append split: if_splits)
  next
    case (AtJoin result)
    with assms i ti show ?thesis
      by (auto simp: step_def task_ok_def split: if_splits intro!: goto_ok)
  next
    case (Returned result)
    with assms i show ?thesis
      by (simp add: step_def)
  qed
qed

lemma init_depth_inv: "depth_inv c (init c)"
  by (simp add: depth_inv_def init_def task_ok_def)

lemma run_depth_inv:
  "run c schedule s = Some s' \<Longrightarrow> depth_inv c s \<Longrightarrow> depth_inv c s'"
  by (induction schedule arbitrary: s) (auto split: option.splits dest: step_depth_inv)

text \<open>
  C3. In every state that a crawl reaches, under every schedule: \<open>get_page_content\<close> was
  only called by tasks within the depth bound; a task deeper than the bound is still
  queued, is at its first test, or has returned the empty dictionary; and a returned
  record with a depth entry carries the depth of its task, which is within the bound.
  A call at its first test with a depth beyond the bound returns the empty dictionary
  in that step, and the step changes nothing else: no fetch, no insertion into
  \<open>visited_urls\<close>.
\<close>

theorem no_record_beyond_max_depth:
  "(run c schedule (init c) = Some s \<longrightarrow>
      list_all (\<lambda>(url, d). d \<le> depth c) (fetch_log s)
      \<and> list_all (\<lambda>t. task_depth t \<le> depth c \<or> task_pc t = Queued \<or> task_pc t = AtCheck
                         \<or> task_pc t = Returned []) (tasks s)
      \<and> list_all (\<lambda>t. case task_pc t of
                          Returned result \<Rightarrow>
                            (case record_depth result of
                               None \<Rightarrow> True
                             | Some d \<Rightarrow> d = task_depth t \<and> d \<le> depth c)
                        | _ \<Rightarrow> True) (tasks s))
   \<and> (i < length (tasks s0) \<and> task_pc (tasks s0 ! i) = AtCheck
        \<and> depth c < task_depth (tasks s0 ! i) \<longrightarrow>
      step c i s0 = Some (s0\<lparr> tasks := (tasks s0)[i := (tasks s0 ! i)\<lparr> task_pc := Returned [] \<rparr>] \<rparr>))"
proof -
  have global: "list_all (\<lambda>(url, d). d \<le> depth c) (fetch_log s)
      \<and> list_all (\<lambda>t. task_depth t \<le> depth c \<or> task_pc t = Queued \<or> task_pc t = AtCheck
                         \<or> task_pc t = Returned []) (tasks s)
      \<and> list_all (\<lambda>t. case task_pc t of
                          Returned result \<Rightarrow>
                            (case record_depth result of
                               None \<Rightarrow> True
                             | Some d \<Rightarrow> d = task_depth t \<and> d \<le> depth c)
                        | _ \<Rightarrow> True) (tasks s)"
    if reach: "run c schedule (init c) = Some s"
  proof -
    from reach have inv: "depth_inv c s"
      by (rule run_depth_inv) (rule init_depth_inv)
    have deep: "task_depth t \<le> depth c \<or> task_pc t = Queued \<or> task_pc t = AtCheck
                  \<or> task_pc t = Returned []"
      if "task_ok (depth c) t" for t :: "'a task"
      using that by (cases "task_pc t") (auto simp: task_ok_def)
    have rec: "(case task_pc t of
                  Returned result \<Rightarrow>
                    (case record_depth result of
                       None \<Rightarrow> True
                     | Some d \<Rightarrow> d = task_depth t \<and> d \<le> depth c)
                | _ \<Rightarrow> True)"
      if "task_ok (depth c) t" for t :: "'a task"
      using that
      by (cases "task_pc t") (auto simp: task_ok_def record_depth_def split: option.splits)
    from inv deep rec show ?thesis
      by (auto simp: depth_inv_def list_all_iff)
  qed
  have local: "step c i s0 =
      Some (s0\<lparr> tasks := (tasks s0)[i := (tasks s0 ! i)\<lparr> task_pc := Returned [] \<rparr>] \<rparr>)"
    if "i < length (tasks s0)" and "task_pc (tasks s0 ! i) = AtCheck"
      and "depth c < task_depth (tasks s0 ! i)"
    using that by (simp add: step_def goto_def)
  from global local show ?thesis
    by blast
qed

subsection \<open>The two sites, step by step\<close>

lemma urljoin_a: "urljoin check ''https://ex.com'' ''/a'' = Inr ''https://ex.com/a''"
  by (simp add: url_defs)


lemma valid_a: "is_valid_url example_library ''https://ex.com'' ''https://ex.com/a'' = Inr True"
  by (simp add: is_valid_url_def example_library_def url_shape_ok_def url_defs)


lemmas step_defs =
  step_def goto_def submit_def can_start_def running_def returned_def
  children_returned_def init_def

lemma twice_fields:
  "base_url twice_linked_site = ''https://ex.com''"
  "depth twice_linked_site = 3"
  "ignore_robots twice_linked_site = False"
  "robots_can_fetch twice_linked_site url = True"
  by (simp_all add: twice_linked_site_def)

lemma twice_home:
  "try_body twice_linked_site ''https://ex.com'' d =
     AtSubmit [''https://ex.com/a'', ''https://ex.com/a'']
       [(''url'', PStr ''https://ex.com''), (''depth'', PInt d),
        (''seo_metrics'', PMetrics 1), (''performance_metrics'', PMetrics 2),
        (''content_metrics'', PMetrics 3),
        (''links'', PList [''https://ex.com/a'', ''https://ex.com/a''])]"
  unfolding try_body_def twice_linked_site_def by (simp add: urljoin_a valid_a)

lemma twice_a:
  "try_body twice_linked_site ''https://ex.com/a'' d =
     AtSubmit []
       [(''url'', PStr ''https://ex.com/a''), (''depth'', PInt d),
        (''seo_metrics'', PMetrics 4), (''performance_metrics'', PMetrics 5),
        (''content_metrics'', PMetrics 6), (''links'', PList [])]"
  unfolding try_body_def twice_linked_site_def by simp

lemma shallow_fields:
  "base_url shallow_site = ''https://ex.com''"
  "depth shallow_site = 0"
  "ignore_robots shallow_site = False"
  "robots_can_fetch shallow_site url = True"
  by (simp_all add: shallow_site_def twice_linked_site_def)

lemma shallow_home:
  "try_body shallow_site ''https://ex.com'' d =
     AtSubmit [''https://ex.com/a'', ''https://ex.com/a'']
       [(''url'', PStr ''https://ex.com''), (''depth'', PInt d),
        (''seo_metrics'', PMetrics 1), (''performance_metrics'', PMetrics 2),
        (''content_metrics'', PMetrics 3),
        (''links'', PList [''https://ex.com/a'', ''https://ex.com/a''])]"
proof -
  have "try_body shallow_site ''https://ex.com'' d = try_body twice_linked_site ''https://ex.com'' d"
    by (simp add: try_body_def shallow_site_def split: sum.splits)
  then show ?thesis
    by (simp only: twice_home)
qed





text \<open>
  The shallow site has depth bound 0: the home page is analysed, the two submitted
  calls are at depth 1 and return the empty dictionary at their first test.
\<close>

lemma shallow_before_check:
  "run shallow_site (take 8 shallow_schedule) (init shallow_site) =
     Some \<lparr> visited_urls = {''https://ex.com''},
            fetch_log = [(''https://ex.com'', 0)],
            tasks =
              [\<lparr> task_url = ''https://ex.com'', task_depth = 0, parent = None,
                 task_pc = AtJoin
                   [(''url'', PStr ''https://ex.com''), (''depth'', PInt 0),
                    (''seo_metrics'', PMetrics 1), (''performance_metrics'', PMetrics 2),
                    (''content_metrics'', PMetrics 3),
                    (''links'', PList [''https://ex.com/a'', ''https://ex.com/a''])] \<rparr>,
               \<lparr> task_url = ''https://ex.com/a'', task_depth = 1, parent = Some 0,
                 task_pc = AtCheck \<rparr>,
               \<lparr> task_url = ''https://ex.com/a'', task_depth = 1, parent = Some 0,
                 task_pc = Queued \<rparr>] \<rparr>"
  by (simp add: shallow_schedule_def step_defs shallow_fields shallow_home)

lemma shallow_run:
  "run shallow_site shallow_schedule (init shallow_site) =
     Some \<lparr> visited_urls = {''https://ex.com''},
            fetch_log = [(''https://ex.com'', 0)],
            tasks =
              [\<lparr> task_url = ''https://ex.com'', task_depth = 0, parent = None,
                 task_pc = Returned
                   [(''url'', PStr ''https://ex.com''), (''depth'', PInt 0),
                    (''seo_metrics'', PMetrics 1), (''performance_metrics'', PMetrics 2),
                    (''content_metrics'', PMetrics 3),
                    (''links'', PList [''https://ex.com/a'', ''https://ex.com/a''])] \<rparr>,
               \<lparr> task_url = ''https://ex.com/a'', task_depth = 1, parent = Some 0,
                 task_pc = Returned [] \<rparr>,
               \<lparr> task_url = ''https://ex.com/a'', task_depth = 1, parent = Some 0,
                 task_pc = Returned [] \<rparr>] \<rparr>"
  by (simp add: shallow_schedule_def step_defs shallow_fields shallow_home numeral_2_eq_2)

text \<open>
  The bound at work on the shallow site: the run fetches the home page only, and the
  call for \<open>/a\<close> at depth 1 returns the empty dictionary at its first test.
\<close>

theorem no_record_beyond_max_depth_witness:
  "\<exists>s s0. run shallow_site shallow_schedule (init shallow_site) = Some s
     \<and> fetch_log s = [(''https://ex.com'', 0)]
     \<and> list_all (\<lambda>(url, d). d \<le> depth shallow_site) (fetch_log s)
     \<and> map task_pc (drop 1 (tasks s)) = [Returned [], Returned []]
     \<and> run shallow_site (take 8 shallow_schedule) (init shallow_site) = Some s0
     \<and> 1 < length (tasks s0) \<and> task_pc (tasks s0 ! 1) = AtCheck
     \<and> depth shallow_site < task_depth (tasks s0 ! 1)
     \<and> step shallow_site 1 s0
         = Some (s0\<lparr> tasks := (tasks s0)[1 := (tasks s0 ! 1)\<lparr> task_pc := Returned [] \<rparr>] \<rparr>)"
proof -
  let ?final = "\<lparr> visited_urls = {''https://ex.com''},
            fetch_log = [(''https://ex.com'', 0)],
            tasks =
              [\<lparr> task_url = ''https://ex.com'', task_depth = 0, parent = None,
                 task_pc = Returned
                   [(''url'', PStr ''https://ex.com''), (''depth'', PInt 0),
                    (''seo_metrics'', PMetrics (1::nat)), (''performance_metrics'', PMetrics 2),
                    (''content_metrics'', PMetrics 3),
                    (''links'', PList [''https://ex.com/a'', ''https://ex.com/a''])] \<rparr>,
               \<lparr> task_url = ''https://ex.com/a'', task_depth = 1, parent = Some 0,
                 task_pc = Returned [] \<rparr>,
               \<lparr> task_url = ''https://ex.com/a'', task_depth = 1, parent = Some 0,
                 task_pc = Returned [] \<rparr>] \<rparr>"
  let ?before = "\<lparr> visited_urls = {''https://ex.com''},
            fetch_log = [(''https://ex.com'', 0)],
            tasks =
              [\<lparr> task_url = ''https://ex.com'', task_depth = 0, parent = None,
                 task_pc = AtJoin
                   [(''url'', PStr ''https://ex.com''), (''depth'', PInt 0),
                    (''seo_metrics'', PMetrics (1::nat)), (''performance_metrics'', PMetrics 2),
                    (''content_metrics'', PMetrics 3),
                    (''links'', PList [''https://ex.com/a'', ''https://ex.com/a''])] \<rparr>,
               \<lparr> task_url = ''https://ex.com/a'', task_depth = 1, parent = Some 0,
                 task_pc = AtCheck \<rparr>,
               \<lparr> task_url = ''https://ex.com/a'', task_depth = 1, parent = Some 0,
                 task_pc = Queued \<rparr>] \<rparr>"
  have reach: "run shallow_site shallow_schedule (init shallow_site) = Some ?final"
    by (rule shallow_run)
  have before: "run shallow_site (take 8 shallow_schedule) (init shallow_site) = Some ?before"
    by (rule shallow_before_check)
  have at_check: "1 < length (tasks ?before) \<and> task_pc (tasks ?before ! 1) = AtCheck
      \<and> depth shallow_site < task_depth (tasks ?before ! 1)"
    by (simp add: shallow_fields)
  from no_record_beyond_max_depth [of shallow_site shallow_schedule ?final 1 ?before] reach at_check
  have bound: "list_all (\<lambda>(url, d). d \<le> depth shallow_site) (fetch_log ?final)"
    and local: "step shallow_site 1 ?before
         = Some (?before\<lparr> tasks := (tasks ?before)[1 := (tasks ?before ! 1)\<lparr> task_pc := Returned [] \<rparr>] \<rparr>)"
    by blast+
  have shape: "fetch_log ?final = [(''https://ex.com'', 0)]
      \<and> map task_pc (drop 1 (tasks ?final)) = [Returned [], Returned []]"
    by simp
  show ?thesis
    by (rule exI [of _ ?final], rule exI [of _ ?before])
       (use reach before at_check bound local shape in blast)
qed

subsection \<open>Crawl orchestrator: a fetch that fails\<close>








text \<open>
  A request that is answered does not raise, whatever its status, which
  \<open>get_page_content\<close> never reads: the page is analysed, its record has the six fields
  and its links are gone through.
\<close>

lemma answered_fetch_is_analysed:
  assumes "i < length (tasks s)" and "task_pc (tasks s ! i) = AtFetch"
    and "get_page c (task_url (tasks s ! i)) = Inr page"
    and "extract_links (library c) (base_url c) (anchors page) (task_url (tasks s ! i))
           = Inr links"
  shows "\<exists>result. map_option (\<lambda>s'. task_pc (tasks s' ! i)) (step c i s)
                    = Some (AtSubmit links result)
           \<and> keys result = [''url'', ''depth'', ''seo_metrics'', ''performance_metrics'',
                            ''content_metrics'', ''links'']"
  using assms by (simp add: step_def goto_def try_body_def keys_def)




subsection \<open>Crawl orchestrator: two calls for one URL\<close>

text \<open>
  The home page of the first site links to \<open>/a\<close> twice, so two calls for \<open>/a\<close> are
  submitted. When they advance in turn, each makes its test of \<open>visited_urls\<close> before
  the other has inserted the URL.
\<close>

lemma racing_after_checks:
  "run twice_linked_site (take 11 racing_schedule) (init twice_linked_site) =
     Some \<lparr> visited_urls = {''https://ex.com''},
            fetch_log = [(''https://ex.com'', 0)],
            tasks =
              [\<lparr> task_url = ''https://ex.com'', task_depth = 0, parent = None,
                 task_pc = AtJoin
                   [(''url'', PStr ''https://ex.com''), (''depth'', PInt 0),
                    (''seo_metrics'', PMetrics 1), (''performance_metrics'', PMetrics 2),
                    (''content_metrics'', PMetrics 3),
                    (''links'', PList [''https://ex.com/a'', ''https://ex.com/a''])] \<rparr>,
               \<lparr> task_url = ''https://ex.com/a'', task_depth = 1, parent = Some 0,
                 task_pc = AtRobots \<rparr>,
               \<lparr> task_url = ''https://ex.com/a'', task_depth = 1, parent = Some 0,
                 task_pc = AtRobots \<rparr>] \<rparr>"
  by (simp add: racing_schedule_def step_defs twice_fields twice_home numeral_2_eq_2)

lemma racing_run:
  "run twice_linked_site racing_schedule (init twice_linked_site) =
     Some \<lparr> visited_urls = {''https://ex.com/a'', ''https://ex.com''},
            fetch_log = [(''https://ex.com'', 0), (''https://ex.com/a'', 1),
                         (''https://ex.com/a'', 1)],
            tasks =
              [\<lparr> task_url = ''https://ex.com'', task_depth = 0, parent = None,
                 task_pc = Returned
                   [(''url'', PStr ''https://ex.com''), (''depth'', PInt 0),
                    (''seo_metrics'', PMetrics 1), (''performance_metrics'', PMetrics 2),
                    (''content_metrics'', PMetrics 3),
                    (''links'', PList [''https://ex.com/a'', ''https://ex.com/a''])] \<rparr>,
               \<lparr> task_url = ''https://ex.com/a'', task_depth = 1, parent = Some 0,
                 task_pc = Returned
                   [(''url'', PStr ''https://ex.com/a''), (''depth'', PInt 1),
                    (''seo_metrics'', PMetrics 4), (''performance_metrics'', PMetrics 5),
                    (''content_metrics'', PMetrics 6), (''links'', PList [])] \<rparr>,
               \<lparr> task_url = ''https://ex.com/a'', task_depth = 1, parent = Some 0,
                 task_pc = Returned
                   [(''url'', PStr ''https://ex.com/a''), (''depth'', PInt 1),
                    (''seo_metrics'', PMetrics 4), (''performance_metrics'', PMetrics 5),
                    (''content_metrics'', PMetrics 6), (''links'', PList [])] \<rparr>] \<rparr>"
  by (simp add: racing_schedule_def step_defs twice_fields twice_home twice_a numeral_2_eq_2
        insert_commute)

text \<open>
  What does hold under every schedule: a call inserts its URL before it fetches, so
  every URL that was fetched is in \<open>visited_urls\<close>.
\<close>

lemma step_fetch_inv:
  assumes "step c i s = Some s'" and "fetch_inv s"
  shows "fetch_inv s'"
proof -
  from assms(1) have i: "i < length (tasks s)"
    by (auto simp: step_def split: if_splits)
  from assms(2) i have ti: "task_url (tasks s ! i) \<in> visited_urls s
                              \<or> task_pc (tasks s ! i) \<noteq> AtFetch"
    by (simp add: fetch_inv_def list_all_length)
  show ?thesis
  proof (cases "task_pc (tasks s ! i)")
    case AtInsert
    from assms(2) have grown:
      "list_all (\<lambda>t. task_url t \<in> insert u (visited_urls s) \<or> task_pc t \<noteq> AtFetch) (tasks s)
       \<and> list_all (\<lambda>(url, d). url \<in> insert u (visited_urls s)) (fetch_log s)" for u
      by (auto simp: fetch_inv_def list_all_iff)
    with AtInsert assms(1) i show ?thesis
      by (auto simp: step_def fetch_inv_def goto_def intro!: list_all_update)
  next
    case AtFetch
    with assms i ti show ?thesis
      by (auto simp: step_def fetch_inv_def goto_def try_body_def
               intro!: list_all_update split: sum.splits)
  next
    case (AtSubmit links result)
    with assms i show ?thesis
      by (cases links)
         (auto simp: step_def fetch_inv_def goto_def submit_def nth_append
               intro!: list_all_update split: if_splits)
  qed (use assms i in \<open>auto simp: step_def fetch_inv_def goto_def
                          intro!: list_all_update split: if_splits\<close>)
qed

lemma fetched_urls_visited:
  "run c schedule (init c) = Some s \<Longrightarrow> fst ` set (fetch_log s) \<subseteq> visited_urls s"
proof -
  have run_inv: "run c schedule s0 = Some s \<Longrightarrow> fetch_inv s0 \<Longrightarrow> fetch_inv s" for s0
    by (induction schedule arbitrary: s0) (auto split: option.splits dest: step_fetch_inv)
  assume "run c schedule (init c) = Some s"
  then have "fetch_inv s"
    by (rule run_inv) (simp add: fetch_inv_def init_def)
  then show ?thesis
    by (auto simp: fetch_inv_def list_all_iff)
qed

text \<open>
  C1, at the site whose home page links to \<open>/a\<close> twice, under a schedule in which the
  two submitted calls advance in turn. After both have made their first test, both are
  past it and \<open>/a\<close> is not yet in \<open>visited_urls\<close>; at the end of the crawl, with every
  call returned, \<open>get_page_content\<close> has been called twice for \<open>/a\<close>.
\<close>

theorem duplicate_link_fetched_twice:
  "map_option (\<lambda>s. (visited_urls s, map task_pc (drop 1 (tasks s))))
       (run twice_linked_site (take 11 racing_schedule) (init twice_linked_site))
     = Some ({''https://ex.com''}, [AtRobots, AtRobots])
   \<and> map_option fetch_log (run twice_linked_site racing_schedule (init twice_linked_site))
     = Some [(''https://ex.com'', 0), (''https://ex.com/a'', 1), (''https://ex.com/a'', 1)]
   \<and> map_option (\<lambda>s. count_list (map fst (fetch_log s)) ''https://ex.com/a'')
       (run twice_linked_site racing_schedule (init twice_linked_site))
     = Some 2
   \<and> map_option (\<lambda>s. list_all returned (tasks s))
       (run twice_linked_site racing_schedule (init twice_linked_site))
     = Some True"
  by (simp add: racing_after_checks racing_run returned_def)

subsection \<open>Crawl orchestrator: what \<open>crawl\<close> returns\<close>

lemma sequential_run:
  "run twice_linked_site sequential_schedule (init twice_linked_site) =
     Some \<lparr> visited_urls = {''https://ex.com/a'', ''https://ex.com''},
            fetch_log = [(''https://ex.com'', 0), (''https://ex.com/a'', 1)],
            tasks =
              [\<lparr> task_url = ''https://ex.com'', task_depth = 0, parent = None,
                 task_pc = Returned
                   [(''url'', PStr ''https://ex.com''), (''depth'', PInt 0),
                    (''seo_metrics'', PMetrics 1), (''performance_metrics'', PMetrics 2),
                    (''content_metrics'', PMetrics 3),
                    (''links'', PList [''https://ex.com/a'', ''https://ex.com/a''])] \<rparr>,
               \<lparr> task_url = ''https://ex.com/a'', task_depth = 1, parent = Some 0,
                 task_pc = Returned
                   [(''url'', PStr ''https://ex.com/a''), (''depth'', PInt 1),
                    (''seo_metrics'', PMetrics 4), (''performance_metrics'', PMetrics 5),
                    (''content_metrics'', PMetrics 6), (''links'', PList [])] \<rparr>,
               \<lparr> task_url = ''https://ex.com/a'', task_depth = 1, parent = Some 0,
                 task_pc = Returned [] \<rparr>] \<rparr>"
  by (simp add: sequential_schedule_def step_defs twice_fields twice_home twice_a numeral_2_eq_2
        insert_commute)

text \<open>
  C2, at the same site with the submitted calls run one after the other. The call for
  \<open>/a\<close> was recursed into and returned a complete record, and the crawl waited for it.
  But the dictionary that \<open>crawl\<close> returns is the record of the home page alone: its six
  fields hold strings, a number, the three metrics and the list of the link URLs, and
  the record of \<open>/a\<close> is in none of them.
\<close>

theorem crawl_result_is_root_record_only:
  "map_option (\<lambda>s. map task_pc (drop 1 (tasks s)))
       (run twice_linked_site sequential_schedule (init twice_linked_site))
     = Some [Returned
               [(''url'', PStr ''https://ex.com/a''), (''depth'', PInt 1),
                (''seo_metrics'', PMetrics 4), (''performance_metrics'', PMetrics 5),
                (''content_metrics'', PMetrics 6), (''links'', PList [])],
             Returned []]
   \<and> map_option crawl_result
       (run twice_linked_site sequential_schedule (init twice_linked_site))
     = Some (Some [(''url'', PStr ''https://ex.com''), (''depth'', PInt 0),
                   (''seo_metrics'', PMetrics 1), (''performance_metrics'', PMetrics 2),
                   (''content_metrics'', PMetrics 3),
                   (''links'', PList [''https://ex.com/a'', ''https://ex.com/a''])])
   \<and> map_option (\<lambda>s. map_option keys (crawl_result s))
       (run twice_linked_site sequential_schedule (init twice_linked_site))
     = Some (Some [''url'', ''depth'', ''seo_metrics'', ''performance_metrics'',
                   ''content_metrics'', ''links''])"
  by (simp add: sequential_run crawl_result_def keys_def)

end
